theory Spec2Isabelle
  imports Complex_Main "HOL-Library.Word"
begin

section \<open>Data model of the evict-slow-trend scheduler\<close>

text \<open>
  The embedding follows \<^verbatim>\<open>pkg/schedule/schedulers/evict_slow_trend.go\<close>.
  Conventions:
  \<^item> \<^verbatim>\<open>uint64\<close> is \<open>64 word\<close>.
  \<^item> \<^verbatim>\<open>time.Time\<close> is an \<open>int\<close>: nanoseconds counted from the zero value
    \<^verbatim>\<open>time.Time{}\<close>, which is \<open>0\<close>. The wall clock read by \<^verbatim>\<open>time.Now()\<close> and
    \<^verbatim>\<open>time.Since\<close> is the parameter \<open>now\<close> of every function that reads it.
  \<^item> A \<^verbatim>\<open>float64\<close> is the \<open>real\<close> it stands for. The product behind the
    affected-store threshold is rounded to the nearest \<^verbatim>\<open>float64\<close> as the hardware does;
    the comparisons against epsilon and the factor 1.1 are computed exactly. Infinities
    and NaN are outside the model.
  \<^item> Go's \<^verbatim>\<open>int\<close> counters are \<open>nat\<close> or \<open>int\<close>; they are bounded by the number of stores
    and cannot overflow.
  \<^item> A \<^verbatim>\<open>*core.StoreInfo\<close> that may be \<^verbatim>\<open>nil\<close> is a \<open>StoreInfo option\<close>; calling an
    accessor on \<^verbatim>\<open>nil\<close> dereferences a nil pointer and panics.
  \<^item> Logging and metric gauges are omitted, except that the arguments of a log call are
    still evaluated.
\<close>

type_synonym uint64 = "64 word"
type_synonym Time = int

text \<open>
  Modelled from the spec: the node lifecycle status read by \<^verbatim>\<open>IsRemoved\<close>,
  \<^verbatim>\<open>IsPreparing\<close> and \<^verbatim>\<open>IsServing\<close> of \<^verbatim>\<open>core.StoreInfo\<close>, whose declaration is not part of
  the scheduler's file: one of Preparing, Serving, Removed, Other.
\<close>

datatype NodeState = Preparing | Serving | Removed | Other

record SlowTrend =
  CauseValue :: real
  CauseRate :: real
  ResultValue :: real
  ResultRate :: real

record StoreInfo =
  GetID :: uint64
  GetAddress :: string
  GetNodeState :: NodeState
  GetSlowTrend :: "SlowTrend option"
  GetLastHeartbeatTS :: Time

definition IsRemoved :: "StoreInfo \<Rightarrow> bool" where
  "IsRemoved store = (GetNodeState store = Removed)"

definition IsPreparing :: "StoreInfo \<Rightarrow> bool" where
  "IsPreparing store = (GetNodeState store = Preparing)"

definition IsServing :: "StoreInfo \<Rightarrow> bool" where
  "IsServing store = (GetNodeState store = Serving)"

text \<open>
  The interface \<^verbatim>\<open>sche.SchedulerCluster\<close>, as far as the scheduler reads it: the snapshot
  of all stores, the lookup by id, the engine flag, the affected-store ratio, the answer
  of the \<^verbatim>\<open>SlowTrendEvicted\<close> hook and the operators that \<^verbatim>\<open>scheduleEvictLeaderBatch\<close> builds
  for a list of evicted stores.
\<close>

datatype error = PersistenceError | NotifyError

record 'op SchedulerCluster =
  GetStores :: "StoreInfo list"
  GetStore :: "uint64 \<Rightarrow> StoreInfo option"
  IsRaftKV2 :: bool
  GetSlowStoreEvictingAffectedStoreRatioThreshold :: real
  SlowTrendEvicted :: "uint64 \<Rightarrow> error option"
  scheduleEvictLeaderBatch :: "uint64 list \<Rightarrow> 'op list"

text \<open>
  \<^verbatim>\<open>endpoint.ConfigStorage\<close>: whether the \<^verbatim>\<open>persistFail\<close> failpoint is armed, whether
  \<^verbatim>\<open>SaveScheduleConfig\<close> answers with an error, and the calls it has received (scheduler
  name and encoded configuration), oldest first.
\<close>

record ConfigStorage =
  persistFail :: bool
  saveFails :: bool
  saveCalls :: "(string \<times> uint64 list) list"

record slowCandidate =
  storeID :: uint64
  captureTS :: Time

record evictSlowTrendSchedulerConfig =
  storage :: ConfigStorage
  evictCandidate :: slowCandidate
  lastEvictCandidate :: slowCandidate
  EvictedStores :: "uint64 list"

definition EvictSlowTrendName :: string where
  "EvictSlowTrendName = ''evict-slow-trend-scheduler''"

definition alterEpsilon :: real where
  "alterEpsilon = 1 / 10 ^ 9"

definition minReCheckDurationGap :: uint64 where
  "minReCheckDurationGap = 120"

definition defaultRecoveryDurationGap :: uint64 where
  "defaultRecoveryDurationGap = 600"

text \<open>The zero value \<^verbatim>\<open>slowCandidate{}\<close>.\<close>

definition emptyCandidate :: slowCandidate where
  "emptyCandidate = \<lparr>storeID = 0, captureTS = 0\<rparr>"

section \<open>Time\<close>

text \<open>
  \<^verbatim>\<open>time.Since(t)\<close> is a \<^verbatim>\<open>time.Duration\<close>, a signed 64-bit count of nanoseconds that
  saturates at both ends. \<^verbatim>\<open>Seconds()\<close> followed by the conversion to \<^verbatim>\<open>uint64\<close> drops the
  fraction, rounding towards zero. For a negative duration Go leaves the converted value
  to the implementation; the model wraps around, as the conversion does on amd64, and no
  result below depends on that case.
\<close>

definition maxDuration :: int where
  "maxDuration = 2 ^ 63 - 1"

definition minDuration :: int where
  "minDuration = - (2 ^ 63)"

definition Since :: "Time \<Rightarrow> Time \<Rightarrow> int" where
  "Since now t =
     (let d = now - t
      in if d > maxDuration then maxDuration
         else if d < minDuration then minDuration
         else d)"

definition DurationSinceAsSecs :: "Time \<Rightarrow> Time \<Rightarrow> uint64" where
  "DurationSinceAsSecs now startTS =
     (let d = Since now startTS
      in if 0 \<le> d then word_of_int (d div 10 ^ 9)
         else word_of_int (- ((- d) div 10 ^ 9)))"

section \<open>Eviction state\<close>

text \<open>
  \<^verbatim>\<open>EncodeConfig\<close> serialises the one exported field, \<^verbatim>\<open>EvictedStores\<close>; the encoded
  configuration is modelled by that list. \<^verbatim>\<open>Persist\<close> returns the error, if any, and the
  configuration with the storage's record of calls.
\<close>

definition getSchedulerName :: "evictSlowTrendSchedulerConfig \<Rightarrow> string" where
  "getSchedulerName conf = EvictSlowTrendName"

definition EncodeConfig :: "evictSlowTrendSchedulerConfig \<Rightarrow> uint64 list" where
  "EncodeConfig conf = EvictedStores conf"

definition SaveScheduleConfig ::
  "ConfigStorage \<Rightarrow> string \<Rightarrow> uint64 list \<Rightarrow> error option \<times> ConfigStorage" where
  "SaveScheduleConfig st name data =
     (if saveFails st then Some PersistenceError else None,
      st\<lparr>saveCalls := saveCalls st @ [(name, data)]\<rparr>)"

definition Persist ::
  "evictSlowTrendSchedulerConfig \<Rightarrow> error option \<times> evictSlowTrendSchedulerConfig" where
  "Persist conf =
     (let name = getSchedulerName conf;
          data = EncodeConfig conf
      in if persistFail (storage conf) then (Some PersistenceError, conf)
         else (case SaveScheduleConfig (storage conf) name data of
                 (err, st) \<Rightarrow> (err, conf\<lparr>storage := st\<rparr>)))"

definition getStores :: "evictSlowTrendSchedulerConfig \<Rightarrow> uint64 list" where
  "getStores conf = EvictedStores conf"

definition evictedStore :: "evictSlowTrendSchedulerConfig \<Rightarrow> uint64" where
  "evictedStore conf = (case EvictedStores conf of [] \<Rightarrow> 0 | x # _ \<Rightarrow> x)"

definition candidate :: "evictSlowTrendSchedulerConfig \<Rightarrow> uint64" where
  "candidate conf = storeID (evictCandidate conf)"

definition candidateCapturedSecs :: "Time \<Rightarrow> evictSlowTrendSchedulerConfig \<Rightarrow> uint64" where
  "candidateCapturedSecs now conf = DurationSinceAsSecs now (captureTS (evictCandidate conf))"

definition captureCandidate ::
  "Time \<Rightarrow> uint64 \<Rightarrow> evictSlowTrendSchedulerConfig \<Rightarrow> evictSlowTrendSchedulerConfig" where
  "captureCandidate now sid conf =
     (let conf1 = conf\<lparr>evictCandidate := \<lparr>storeID = sid, captureTS = now\<rparr>\<rparr>
      in if lastEvictCandidate conf1 = emptyCandidate
         then conf1\<lparr>lastEvictCandidate := evictCandidate conf1\<rparr>
         else conf1)"

definition popCandidate ::
  "evictSlowTrendSchedulerConfig \<Rightarrow> uint64 \<times> evictSlowTrendSchedulerConfig" where
  "popCandidate conf =
     (let sid = storeID (evictCandidate conf);
          conf1 = conf\<lparr>lastEvictCandidate := evictCandidate conf\<rparr>;
          conf2 = conf1\<lparr>evictCandidate := emptyCandidate\<rparr>
      in (sid, conf2))"

definition setStoreAndPersist ::
  "uint64 \<Rightarrow> evictSlowTrendSchedulerConfig \<Rightarrow> error option \<times> evictSlowTrendSchedulerConfig" where
  "setStoreAndPersist sid conf = Persist (conf\<lparr>EvictedStores := [sid]\<rparr>)"

definition clearAndPersist ::
  "evictSlowTrendSchedulerConfig \<Rightarrow> uint64 \<times> error option \<times> evictSlowTrendSchedulerConfig" where
  "clearAndPersist conf =
     (let oldID = evictedStore conf
      in if oldID = 0 then (oldID, None, conf)
         else (case Persist (conf\<lparr>EvictedStores := []\<rparr>) of
                 (err, conf') \<Rightarrow> (oldID, err, conf')))"

section \<open>Confirmation gate\<close>

text \<open>
  Each check walks the whole snapshot \<^verbatim>\<open>cluster.GetStores()\<close>; the loop is a recursive
  function over the list that carries the counter.
\<close>

fun countUpdatedStores :: "uint64 \<Rightarrow> Time \<Rightarrow> StoreInfo list \<Rightarrow> nat \<Rightarrow> nat" where
  "countUpdatedStores slowStoreID slowStoreRecordTS [] updatedStores = updatedStores"
| "countUpdatedStores slowStoreID slowStoreRecordTS (store # stores) updatedStores =
     (if IsRemoved store
      then countUpdatedStores slowStoreID slowStoreRecordTS stores (updatedStores + 1)
      else if \<not> (IsPreparing store \<or> IsServing store)
      then countUpdatedStores slowStoreID slowStoreRecordTS stores (updatedStores + 1)
      else if GetID store = slowStoreID
      then countUpdatedStores slowStoreID slowStoreRecordTS stores (updatedStores + 1)
      else if slowStoreRecordTS \<le> GetLastHeartbeatTS store
      then countUpdatedStores slowStoreID slowStoreRecordTS stores (updatedStores + 1)
      else countUpdatedStores slowStoreID slowStoreRecordTS stores updatedStores)"

definition checkStoresAreUpdated :: "'op SchedulerCluster \<Rightarrow> uint64 \<Rightarrow> Time \<Rightarrow> bool" where
  "checkStoresAreUpdated cluster slowStoreID slowStoreRecordTS =
     (let stores = GetStores cluster
      in if length stores \<le> 1 then False
         else (let expected = (length stores + 1) div 2;
                   updatedStores = countUpdatedStores slowStoreID slowStoreRecordTS stores 0
               in updatedStores \<ge> expected))"

fun countSlowerThanStores :: "SlowTrend \<Rightarrow> uint64 \<Rightarrow> StoreInfo list \<Rightarrow> nat \<Rightarrow> nat" where
  "countSlowerThanStores targetSlowTrend targetID [] slowerThanStoresNum = slowerThanStoresNum"
| "countSlowerThanStores targetSlowTrend targetID (store # stores) slowerThanStoresNum =
     (if IsRemoved store
      then countSlowerThanStores targetSlowTrend targetID stores slowerThanStoresNum
      else if \<not> (IsPreparing store \<or> IsServing store)
      then countSlowerThanStores targetSlowTrend targetID stores slowerThanStoresNum
      else if GetID store = targetID
      then countSlowerThanStores targetSlowTrend targetID stores slowerThanStoresNum
      else (case GetSlowTrend store of
              Some slowTrend \<Rightarrow>
                if CauseValue targetSlowTrend - CauseValue slowTrend > alterEpsilon
                   \<and> CauseValue slowTrend > alterEpsilon
                then countSlowerThanStores targetSlowTrend targetID stores (slowerThanStoresNum + 1)
                else countSlowerThanStores targetSlowTrend targetID stores slowerThanStoresNum
            | None \<Rightarrow> countSlowerThanStores targetSlowTrend targetID stores slowerThanStoresNum))"

definition checkStoreSlowerThanOthers :: "'op SchedulerCluster \<Rightarrow> StoreInfo \<Rightarrow> bool" where
  "checkStoreSlowerThanOthers cluster target =
     (let stores = GetStores cluster;
          expected = (length stores * 2 + 1) div 3
      in case GetSlowTrend target of
           None \<Rightarrow> False
         | Some targetSlowTrend \<Rightarrow>
             (let slowerThanStoresNum =
                    countSlowerThanStores targetSlowTrend (GetID target) stores 0
              in slowerThanStoresNum \<ge> expected))"

fun countFasterThanStores :: "SlowTrend \<Rightarrow> uint64 \<Rightarrow> StoreInfo list \<Rightarrow> nat \<Rightarrow> nat" where
  "countFasterThanStores targetSlowTrend targetID [] fasterThanStores = fasterThanStores"
| "countFasterThanStores targetSlowTrend targetID (store # stores) fasterThanStores =
     (if IsRemoved store
      then countFasterThanStores targetSlowTrend targetID stores fasterThanStores
      else if \<not> (IsPreparing store \<or> IsServing store)
      then countFasterThanStores targetSlowTrend targetID stores fasterThanStores
      else if GetID store = targetID
      then countFasterThanStores targetSlowTrend targetID stores fasterThanStores
      else (case GetSlowTrend store of
              Some slowTrend \<Rightarrow>
                if CauseValue targetSlowTrend \<le> CauseValue slowTrend * (11 / 10)
                   \<and> CauseValue slowTrend > alterEpsilon
                   \<and> CauseValue targetSlowTrend > alterEpsilon
                then countFasterThanStores targetSlowTrend targetID stores (fasterThanStores + 1)
                else countFasterThanStores targetSlowTrend targetID stores fasterThanStores
            | None \<Rightarrow> countFasterThanStores targetSlowTrend targetID stores fasterThanStores))"

definition checkStoreFasterThanOthers :: "'op SchedulerCluster \<Rightarrow> StoreInfo \<Rightarrow> bool" where
  "checkStoreFasterThanOthers cluster target =
     (let stores = GetStores cluster;
          expected = (length stores + 1) div 2
      in case GetSlowTrend target of
           None \<Rightarrow> False
         | Some targetSlowTrend \<Rightarrow>
             (let fasterThanStores =
                    countFasterThanStores targetSlowTrend (GetID target) stores 0
              in fasterThanStores \<ge> expected))"

definition checkStoreReadyForRecover ::
  "'op SchedulerCluster \<Rightarrow> StoreInfo \<Rightarrow> uint64 \<Rightarrow> bool" where
  "checkStoreReadyForRecover cluster target recoveryGap =
     (case GetSlowTrend target of
        Some targetSlowTrend \<Rightarrow> recoveryGap \<ge> defaultRecoveryDurationGap
      | None \<Rightarrow> True)"

definition checkStoreCanRecover ::
  "'op SchedulerCluster \<Rightarrow> StoreInfo \<Rightarrow> uint64 \<Rightarrow> bool" where
  "checkStoreCanRecover cluster target recoveryGap =
     (checkStoreFasterThanOthers cluster target
      \<and> checkStoreReadyForRecover cluster target recoveryGap)"

section \<open>Candidate detector\<close>

text \<open>
  The scan of \<^verbatim>\<open>chooseEvictCandidate\<close> carries the candidates collected so far and the
  number of affected stores.
\<close>

fun scanStores ::
  "bool \<Rightarrow> Time \<Rightarrow> slowCandidate \<Rightarrow> StoreInfo list \<Rightarrow> StoreInfo list \<Rightarrow> nat
   \<Rightarrow> StoreInfo list \<times> nat" where
  "scanStores isRaftKV2 now lastCand [] candidates affectedStoreCount =
     (candidates, affectedStoreCount)"
| "scanStores isRaftKV2 now lastCand (store # stores) candidates affectedStoreCount =
     (if IsRemoved store
      then scanStores isRaftKV2 now lastCand stores candidates affectedStoreCount
      else if \<not> (IsPreparing store \<or> IsServing store)
      then scanStores isRaftKV2 now lastCand stores candidates affectedStoreCount
      else (case GetSlowTrend store of
              None \<Rightarrow> scanStores isRaftKV2 now lastCand stores candidates affectedStoreCount
            | Some slowTrend \<Rightarrow>
                (let affected' = (if ResultRate slowTrend < - alterEpsilon
                                  then affectedStoreCount + 1 else affectedStoreCount)
                 in if CauseRate slowTrend > alterEpsilon \<and> ResultRate slowTrend < - alterEpsilon
                    then scanStores isRaftKV2 now lastCand stores (candidates @ [store]) affected'
                    else if isRaftKV2 \<and> CauseRate slowTrend > alterEpsilon
                    then (if lastCand \<noteq> emptyCandidate
                             \<and> storeID lastCand = GetID store
                             \<and> DurationSinceAsSecs now (captureTS lastCand) \<le> minReCheckDurationGap
                          then scanStores isRaftKV2 now lastCand stores (candidates @ [store]) affected'
                          else scanStores isRaftKV2 now lastCand stores candidates affected')
                    else scanStores isRaftKV2 now lastCand stores candidates affected')))"

text \<open>
  The threshold is \<^verbatim>\<open>int(float64(len(stores)) * ratio)\<close>. The conversion of the length and
  the product are rounded to the nearest \<^verbatim>\<open>float64\<close>, ties to even: a value in the binade
  \<open>[2^e, 2^(e+1))\<close> is rounded to a multiple of \<open>2^(e - 52)\<close>, with \<open>e\<close> no less than
  \<open>-1022\<close> (subnormal numbers). A result of \<open>2^1024\<close> or more stands for an infinity,
  which the model does not represent. \<^verbatim>\<open>int(x)\<close> then rounds towards zero.
\<close>

function bitLength :: "int \<Rightarrow> nat" where
  "bitLength n = (if n \<le> 0 then 0 else Suc (bitLength (n div 2)))"
  by pat_completeness auto
termination
  by (relation "measure nat") auto

declare bitLength.simps [simp del]

definition pow2 :: "int \<Rightarrow> real" where
  "pow2 k = (if 0 \<le> k then 2 ^ nat k else 1 / 2 ^ nat (- k))"

text \<open>The exponent \<open>e\<close> with \<open>2^e \<le> a < 2^(e+1)\<close>, for a positive \<open>a\<close>.\<close>

definition floorLog2 :: "real \<Rightarrow> int" where
  "floorLog2 a =
     (if 1 \<le> a then int (bitLength \<lfloor>a\<rfloor>) - 1
      else - int (bitLength (\<lceil>1 / a\<rceil> - 1)))"

definition roundHalfEven :: "real \<Rightarrow> int" where
  "roundHalfEven y =
     (let f = \<lfloor>y\<rfloor>;
          d = y - of_int f
      in if d < 1 / 2 then f
         else if 1 / 2 < d then f + 1
         else if even f then f
         else f + 1)"

definition float64Round :: "real \<Rightarrow> real" where
  "float64Round x =
     (if x = 0 then 0
      else (let a = \<bar>x\<bar>;
                e = max (floorLog2 a) (- 1022);
                ulp = pow2 (e - 52)
            in sgn x * of_int (roundHalfEven (a / ulp)) * ulp))"

definition float64Mul :: "real \<Rightarrow> real \<Rightarrow> real" where
  "float64Mul a b = float64Round (a * b)"

definition truncToInt :: "real \<Rightarrow> int" where
  "truncToInt x = (if 0 \<le> x then \<lfloor>x\<rfloor> else \<lceil>x\<rceil>)"

definition affectedStoreThreshold :: "'op SchedulerCluster \<Rightarrow> int" where
  "affectedStoreThreshold cluster =
     truncToInt (float64Mul (float64Round (real (length (GetStores cluster))))
                            (GetSlowStoreEvictingAffectedStoreRatioThreshold cluster))"

definition chooseEvictCandidate ::
  "'op SchedulerCluster \<Rightarrow> Time \<Rightarrow> slowCandidate \<Rightarrow> StoreInfo option" where
  "chooseEvictCandidate cluster now lastCand =
     (let isRaftKV2 = IsRaftKV2 cluster;
          stores = GetStores cluster
      in if length stores < 3 then None
         else (case scanStores isRaftKV2 now lastCand stores [] 0 of
                 (candidates, affectedStoreCount) \<Rightarrow>
                   (case candidates of
                      [] \<Rightarrow> None
                    | [store] \<Rightarrow>
                        if int affectedStoreCount < affectedStoreThreshold cluster then None
                        else if \<not> checkStoreSlowerThanOthers cluster store then None
                        else Some store
                    | _ \<Rightarrow> None)))"

section \<open>Scheduling decision loop\<close>

text \<open>
  A tick returns the operators, the configuration it leaves behind and the cluster hooks it
  called, or the panic that aborted it. \<^verbatim>\<open>clearAndPersist\<close> reads the cluster only to label
  a gauge, guarded against a missing store, so the model does not pass the cluster to it.
\<close>

datatype panic = NilPointerDereference

datatype hook = Evicted uint64 | Recovered uint64

definition prepareEvictLeader ::
  "'op SchedulerCluster \<Rightarrow> uint64 \<Rightarrow> evictSlowTrendSchedulerConfig
   \<Rightarrow> error option \<times> evictSlowTrendSchedulerConfig \<times> hook list" where
  "prepareEvictLeader cluster sid conf =
     (case setStoreAndPersist sid conf of
        (Some err, conf') \<Rightarrow> (Some err, conf', [])
      | (None, conf') \<Rightarrow> (SlowTrendEvicted cluster sid, conf', [Evicted sid]))"

definition cleanupEvictLeader ::
  "'op SchedulerCluster \<Rightarrow> evictSlowTrendSchedulerConfig
   \<Rightarrow> evictSlowTrendSchedulerConfig \<times> hook list" where
  "cleanupEvictLeader cluster conf =
     (case clearAndPersist conf of
        (evictedStoreID, err, conf') \<Rightarrow>
          (conf', if evictedStoreID \<noteq> 0 then [Recovered evictedStoreID] else []))"

definition scheduleEvictLeader ::
  "'op SchedulerCluster \<Rightarrow> evictSlowTrendSchedulerConfig \<Rightarrow> 'op list" where
  "scheduleEvictLeader cluster conf =
     (case GetStore cluster (evictedStore conf) of
        None \<Rightarrow> []
      | Some store \<Rightarrow> scheduleEvictLeaderBatch cluster (getStores conf))"

type_synonym 'op tick = "panic + ('op list \<times> evictSlowTrendSchedulerConfig \<times> hook list)"

text \<open>The tail of \<^verbatim>\<open>Schedule\<close>, from the heartbeat check to the start of the eviction.\<close>

definition confirmAndEvict ::
  "'op SchedulerCluster \<Rightarrow> Time \<Rightarrow> evictSlowTrendSchedulerConfig \<Rightarrow> uint64 \<Rightarrow> 'op tick" where
  "confirmAndEvict cluster now conf slowStoreID =
     (if \<not> checkStoresAreUpdated cluster slowStoreID (captureTS (evictCandidate conf))
      then Inr ([], conf, [])
      else (case popCandidate conf of
              (sid, conf2) \<Rightarrow>
                (case prepareEvictLeader cluster sid conf2 of
                   (Some err, conf3, hooks) \<Rightarrow> Inr ([], conf3, hooks)
                 | (None, conf3, hooks) \<Rightarrow>
                     Inr (scheduleEvictLeader cluster conf3, conf3, hooks))))"

definition Schedule ::
  "'op SchedulerCluster \<Rightarrow> Time \<Rightarrow> evictSlowTrendSchedulerConfig \<Rightarrow> 'op tick" where
  "Schedule cluster now conf =
     (if evictedStore conf \<noteq> 0
      then (case GetStore cluster (evictedStore conf) of
              None \<Rightarrow> Inl NilPointerDereference
            | Some store \<Rightarrow>
                if IsRemoved store
                then (case cleanupEvictLeader cluster conf of
                        (conf', hooks) \<Rightarrow> Inr ([], conf', hooks))
                else if checkStoreCanRecover cluster store (candidateCapturedSecs now conf)
                then (case cleanupEvictLeader cluster conf of
                        (conf', hooks) \<Rightarrow> Inr ([], conf', hooks))
                else Inr (scheduleEvictLeader cluster conf, conf, []))
      else (case (if candidate conf = 0
                  then (case chooseEvictCandidate cluster now (lastEvictCandidate conf) of
                          Some cand \<Rightarrow> (captureCandidate now (GetID cand) conf, True)
                        | None \<Rightarrow> (conf, False))
                  else (conf, False)) of
              (conf1, candFreshCaptured) \<Rightarrow>
                (let slowStoreID = candidate conf1
                 in if slowStoreID = 0 then Inr ([], conf1, [])
                    else if candFreshCaptured
                    then confirmAndEvict cluster now conf1 slowStoreID
                    else (case GetStore cluster slowStoreID of
                            None \<Rightarrow> Inl NilPointerDereference
                          | Some slowStore \<Rightarrow>
                              if checkStoreFasterThanOthers cluster slowStore
                              then Inr ([], snd (popCandidate conf1), [])
                              else confirmAndEvict cluster now conf1 slowStoreID))))"

section \<open>Quantities named by the specification\<close>

text \<open>
  The specification states the checks over the eligible nodes: those that are not removed
  and are Preparing or Serving. The definitions below follow its wording; the lemmas
  further down relate them to the loops of the source.
\<close>

definition eligible :: "StoreInfo \<Rightarrow> bool" where
  "eligible store = (\<not> IsRemoved store \<and> (IsPreparing store \<or> IsServing store))"

definition eligibleCount :: "StoreInfo list \<Rightarrow> nat" where
  "eligibleCount stores = length (filter eligible stores)"

text \<open>
  Eligible nodes other than the target whose last heartbeat is at or after \<open>sinceTS\<close>, plus
  all ineligible nodes and the target, which count as updated.
\<close>

definition updatedCount :: "StoreInfo list \<Rightarrow> uint64 \<Rightarrow> Time \<Rightarrow> nat" where
  "updatedCount stores targetID sinceTS =
     length (filter (\<lambda>s. eligible s \<and> GetID s \<noteq> targetID \<and> sinceTS \<le> GetLastHeartbeatTS s)
               stores)
     + length (filter (\<lambda>s. \<not> eligible s \<or> GetID s = targetID) stores)"

text \<open>
  Other eligible nodes whose cause value the target's exceeds by more than epsilon, and
  whose own cause value is above epsilon.
\<close>

definition slowerThanCount :: "StoreInfo list \<Rightarrow> uint64 \<Rightarrow> SlowTrend \<Rightarrow> nat" where
  "slowerThanCount stores targetID targetTrend =
     length (filter (\<lambda>other. eligible other \<and> GetID other \<noteq> targetID
                       \<and> (case GetSlowTrend other of
                             None \<Rightarrow> False
                           | Some otherTrend \<Rightarrow>
                               CauseValue targetTrend - CauseValue otherTrend > alterEpsilon
                               \<and> CauseValue otherTrend > alterEpsilon))
               stores)"

text \<open>The affected-node counter: eligible nodes with a result rate below minus epsilon.\<close>

definition affectedCount :: "StoreInfo list \<Rightarrow> nat" where
  "affectedCount stores =
     length (filter (\<lambda>s. eligible s
                       \<and> (case GetSlowTrend s of
                             None \<Rightarrow> False
                           | Some slowTrend \<Rightarrow> ResultRate slowTrend < - alterEpsilon))
               stores)"

text \<open>The candidates that the scan of \<^verbatim>\<open>chooseEvictCandidate\<close> collects.\<close>

definition collectedCandidates ::
  "'op SchedulerCluster \<Rightarrow> Time \<Rightarrow> slowCandidate \<Rightarrow> StoreInfo list" where
  "collectedCandidates cluster now lastCand =
     fst (scanStores (IsRaftKV2 cluster) now lastCand (GetStores cluster) [] 0)"

section \<open>Concrete clusters and configurations\<close>

text \<open>
  Small inputs on which the results below are evaluated. An operator is represented by the
  id of the store it moves leaders away from; the lookup by id finds the store in the
  snapshot; every store sent its last heartbeat five seconds after \<open>captureInstant\<close>. The
  ratio 0.3 is the \<^verbatim>\<open>float64\<close> nearest to it.
\<close>

definition exampleTrend :: "real \<Rightarrow> real \<Rightarrow> real \<Rightarrow> SlowTrend" where
  "exampleTrend causeValue causeRate resultRate =
     \<lparr>CauseValue = causeValue, CauseRate = causeRate, ResultValue = 0,
      ResultRate = resultRate\<rparr>"

definition exampleStore :: "uint64 \<Rightarrow> NodeState \<Rightarrow> SlowTrend option \<Rightarrow> StoreInfo" where
  "exampleStore sid st tr =
     \<lparr>GetID = sid, GetAddress = ''tikv'', GetNodeState = st, GetSlowTrend = tr,
      GetLastHeartbeatTS = 63800000005 * 10 ^ 9\<rparr>"

definition slowStore :: "uint64 \<Rightarrow> StoreInfo" where
  "slowStore sid = exampleStore sid Serving (Some (exampleTrend 5 1 (- 1)))"

definition degradedStore :: "uint64 \<Rightarrow> StoreInfo" where
  "degradedStore sid = exampleStore sid Serving (Some (exampleTrend 1 0 (- 1)))"

definition healthyStore :: "uint64 \<Rightarrow> StoreInfo" where
  "healthyStore sid = exampleStore sid Serving (Some (exampleTrend 1 0 0))"

definition silentStore :: "uint64 \<Rightarrow> StoreInfo" where
  "silentStore sid = exampleStore sid Serving None"

definition removedStore :: "uint64 \<Rightarrow> StoreInfo" where
  "removedStore sid = exampleStore sid Removed None"

definition exampleCluster :: "StoreInfo list \<Rightarrow> real \<Rightarrow> uint64 SchedulerCluster" where
  "exampleCluster stores ratio =
     \<lparr>GetStores = stores,
      GetStore = (\<lambda>sid. find (\<lambda>s. GetID s = sid) stores),
      IsRaftKV2 = False,
      GetSlowStoreEvictingAffectedStoreRatioThreshold = ratio,
      SlowTrendEvicted = (\<lambda>sid. None),
      scheduleEvictLeaderBatch = (\<lambda>sids. sids)\<rparr>"

definition exampleConf ::
  "(string \<times> uint64 list) list \<Rightarrow> uint64 list \<Rightarrow> slowCandidate \<Rightarrow> slowCandidate
   \<Rightarrow> evictSlowTrendSchedulerConfig" where
  "exampleConf calls evicted cand lastCand =
     \<lparr>storage = \<lparr>persistFail = False, saveFails = False, saveCalls = calls\<rparr>,
      evictCandidate = cand, lastEvictCandidate = lastCand, EvictedStores = evicted\<rparr>"

definition exampleRatio :: real where
  "exampleRatio = float64Round (3 / 10)"

definition captureInstant :: Time where
  "captureInstant = 63800000000 * 10 ^ 9"

definition slowCluster :: "uint64 SchedulerCluster" where
  "slowCluster = exampleCluster [slowStore 1, healthyStore 2, healthyStore 3] exampleRatio"

definition parityCluster :: "uint64 SchedulerCluster" where
  "parityCluster = exampleCluster [healthyStore 1, healthyStore 2, healthyStore 3] exampleRatio"

definition fourStoreCluster :: "uint64 SchedulerCluster" where
  "fourStoreCluster =
     exampleCluster [slowStore 1, healthyStore 2, healthyStore 3, silentStore 4] exampleRatio"

definition twoEligibleCluster :: "uint64 SchedulerCluster" where
  "twoEligibleCluster = exampleCluster [slowStore 1, healthyStore 2, removedStore 3] exampleRatio"

definition sixStoreCluster :: "uint64 SchedulerCluster" where
  "sixStoreCluster =
     exampleCluster [slowStore 1, degradedStore 2, healthyStore 3, healthyStore 4,
                     healthyStore 5, removedStore 6] (1 / 2)"

definition singleStoreCluster :: "uint64 SchedulerCluster" where
  "singleStoreCluster = exampleCluster [healthyStore 1] exampleRatio"

definition tombstoneCluster :: "uint64 SchedulerCluster" where
  "tombstoneCluster = exampleCluster [removedStore 1, healthyStore 2, healthyStore 3] exampleRatio"

definition purgedCluster :: "uint64 SchedulerCluster" where
  "purgedCluster = exampleCluster [healthyStore 2, healthyStore 3] exampleRatio"

definition tenStoreCluster :: "uint64 SchedulerCluster" where
  "tenStoreCluster =
     exampleCluster [slowStore 1, degradedStore 2, healthyStore 3, healthyStore 4,
                     healthyStore 5, healthyStore 6, healthyStore 7, healthyStore 8,
                     healthyStore 9, healthyStore 10] exampleRatio"

definition idleConf :: evictSlowTrendSchedulerConfig where
  "idleConf = exampleConf [] [] emptyCandidate emptyCandidate"

definition evictingConf :: evictSlowTrendSchedulerConfig where
  "evictingConf =
     exampleConf [(EvictSlowTrendName, [1])] [1] emptyCandidate
       \<lparr>storeID = 1, captureTS = captureInstant\<rparr>"

definition recoveredConf :: evictSlowTrendSchedulerConfig where
  "recoveredConf =
     exampleConf [(EvictSlowTrendName, [1]), (EvictSlowTrendName, [])] [] emptyCandidate
       \<lparr>storeID = 1, captureTS = captureInstant\<rparr>"

definition vanishedConf :: evictSlowTrendSchedulerConfig where
  "vanishedConf =
     exampleConf [(EvictSlowTrendName, [4])] [4] emptyCandidate
       \<lparr>storeID = 4, captureTS = captureInstant\<rparr>"

definition failingStorageConf :: evictSlowTrendSchedulerConfig where
  "failingStorageConf =
     idleConf\<lparr>storage := \<lparr>persistFail = False, saveFails = True, saveCalls = []\<rparr>\<rparr>"

definition probationConf :: evictSlowTrendSchedulerConfig where
  "probationConf =
     exampleConf [] [] \<lparr>storeID = 1, captureTS = captureInstant\<rparr>
       \<lparr>storeID = 2, captureTS = 5\<rparr>"

lemmas example_defs =
  exampleTrend_def exampleStore_def slowStore_def degradedStore_def healthyStore_def
  silentStore_def removedStore_def exampleCluster_def exampleConf_def captureInstant_def
  slowCluster_def parityCluster_def fourStoreCluster_def twoEligibleCluster_def
  sixStoreCluster_def singleStoreCluster_def tombstoneCluster_def purgedCluster_def
  tenStoreCluster_def idleConf_def
  evictingConf_def recoveredConf_def vanishedConf_def failingStorageConf_def
  probationConf_def emptyCandidate_def IsRemoved_def IsPreparing_def IsServing_def
  alterEpsilon_def eligible_def

section \<open>The loops compute the specification's counts\<close>

lemma countUpdatedStores_eq:
  "countUpdatedStores targetID sinceTS stores n = n + updatedCount stores targetID sinceTS"
  by (induction stores arbitrary: n) (auto simp: updatedCount_def eligible_def)

lemma countSlowerThanStores_eq:
  "countSlowerThanStores targetTrend targetID stores n
   = n + slowerThanCount stores targetID targetTrend"
  by (induction stores arbitrary: n)
     (auto simp: slowerThanCount_def eligible_def split: option.splits)

lemma scanStores_affected:
  "snd (scanStores isRaftKV2 now lastCand stores cands n) = n + affectedCount stores"
  by (induction stores arbitrary: cands n)
     (auto simp: affectedCount_def eligible_def Let_def split: option.splits)

lemma scanStores_candidates:
  "set (fst (scanStores isRaftKV2 now lastCand stores cands n))
   \<subseteq> set cands \<union> {s \<in> set stores. eligible s}"
proof (induction stores arbitrary: cands n)
  case Nil
  then show ?case by simp
next
  case (Cons s stores)
  show ?case
    using Cons.IH [of cands n] Cons.IH [of cands "n + 1"]
      Cons.IH [of "cands @ [s]" n] Cons.IH [of "cands @ [s]" "n + 1"]
    by (auto simp: eligible_def Let_def split: option.splits)
qed

lemma ceiling_half: "\<lceil>real n / 2\<rceil> = int ((n + 1) div 2)"
  by linarith

lemma floor_le_truncToInt: "\<lfloor>x\<rfloor> \<le> truncToInt x"
  unfolding truncToInt_def by (simp add: floor_le_ceiling)

text \<open>
  Rounding to \<^verbatim>\<open>float64\<close> never takes a value below an integer of at most \<open>2^53\<close> that it
  has reached, since such an integer is a \<^verbatim>\<open>float64\<close> itself.
\<close>

lemma bitLength_lower: "0 < n \<Longrightarrow> 2 ^ (bitLength n - 1) \<le> n"
proof (induction n rule: bitLength.induct)
  case (1 n)
  show ?case
  proof (cases "n div 2 \<le> 0")
    case True
    then have "bitLength (n div 2) = 0" by (simp add: bitLength.simps)
    then show ?thesis using "1.prems" by (simp add: bitLength.simps [of n])
  next
    case False
    then have pos: "0 < n div 2" by simp
    have ih: "2 ^ (bitLength (n div 2) - 1) \<le> n div 2"
      using "1.IH" "1.prems" pos by simp
    have b: "0 < bitLength (n div 2)"
      using pos by (simp add: bitLength.simps [of "n div 2"])
    have "bitLength n - 1 = Suc (bitLength (n div 2) - 1)"
      using "1.prems" b by (simp add: bitLength.simps [of n])
    then have "(2::int) ^ (bitLength n - 1) = 2 * 2 ^ (bitLength (n div 2) - 1)"
      by simp
    also have "\<dots> \<le> 2 * (n div 2)" using ih by simp
    also have "\<dots> \<le> n" by simp
    finally show ?thesis .
  qed
qed

lemma bitLength_pos: "0 < n \<Longrightarrow> 0 < bitLength n"
  by (simp add: bitLength.simps [of n])

lemma roundHalfEven_ge: "of_int m \<le> y \<Longrightarrow> m \<le> roundHalfEven y"
proof -
  assume "of_int m \<le> y"
  then have "m \<le> \<lfloor>y\<rfloor>" by (simp add: le_floor_iff)
  then show ?thesis by (simp add: roundHalfEven_def Let_def)
qed

lemma pow2_pos: "0 < pow2 k"
  by (simp add: pow2_def)

lemma float64Round_nonneg: "0 \<le> x \<Longrightarrow> 0 \<le> float64Round x"
proof (cases "x = 0")
  case True
  then show ?thesis by (simp add: float64Round_def)
next
  case False
  assume "0 \<le> x"
  with False have x: "0 < x" by simp
  define ulp where "ulp = pow2 (max (floorLog2 x) (- 1022) - 52)"
  have u: "0 < ulp" by (simp add: ulp_def pow2_pos)
  have r: "float64Round x = of_int (roundHalfEven (x / ulp)) * ulp"
    using x by (simp add: float64Round_def Let_def ulp_def)
  have "of_int 0 \<le> x / ulp" using x u by simp
  then have "0 \<le> roundHalfEven (x / ulp)" by (rule roundHalfEven_ge)
  then show ?thesis
    using u by (simp add: r)
qed

lemma float64Round_ge_int:
  assumes "0 \<le> k" and "k \<le> 2 ^ 53" and "of_int k \<le> x"
  shows "of_int k \<le> float64Round x"
proof (cases "k = 0")
  case True
  then show ?thesis using assms(3) float64Round_nonneg [of x] by simp
next
  case False
  then have k: "1 \<le> k" using assms(1) by simp
  then have x: "1 \<le> x" using assms(3) by linarith
  define e where "e = int (bitLength \<lfloor>x\<rfloor>) - 1"
  have fl: "0 < \<lfloor>x\<rfloor>" using x by simp
  have e0: "0 \<le> e" using bitLength_pos [OF fl] by (simp add: e_def)
  have fe: "floorLog2 \<bar>x\<bar> = e" using x by (simp add: floorLog2_def e_def)
  have me: "max (floorLog2 \<bar>x\<bar>) (- 1022) = e" using fe e0 by simp
  define ulp where "ulp = pow2 (e - 52)"
  have u: "0 < ulp" by (simp add: ulp_def pow2_pos)
  define m where "m = roundHalfEven (x / ulp)"
  have r: "float64Round x = of_int m * ulp"
    using x me by (simp add: float64Round_def Let_def ulp_def m_def)
  show ?thesis
  proof (cases "e \<le> 52")
    case True
    then have ulp: "ulp = 1 / 2 ^ nat (52 - e)"
      by (auto simp: ulp_def pow2_def)
    have "of_int (k * 2 ^ nat (52 - e)) \<le> x / ulp"
      using assms(3) by (simp add: ulp)
    then have "k * 2 ^ nat (52 - e) \<le> m"
      unfolding m_def by (rule roundHalfEven_ge)
    then have "of_int (k * 2 ^ nat (52 - e)) \<le> (of_int m :: real)"
      by (simp only: of_int_le_iff)
    then have "of_int k * 2 ^ nat (52 - e) \<le> (of_int m :: real)"
      by simp
    then have "of_int k \<le> of_int m / (2 ^ nat (52 - e) :: real)"
      by (simp add: pos_le_divide_eq)
    then show ?thesis by (simp add: r ulp)
  next
    case False
    then have e53: "53 \<le> e" by simp
    then have ulp: "ulp = 2 ^ nat (e - 52)"
      by (simp add: ulp_def pow2_def)
    have "(2::int) ^ (bitLength \<lfloor>x\<rfloor> - 1) \<le> \<lfloor>x\<rfloor>"
      by (rule bitLength_lower [OF fl])
    moreover have "bitLength \<lfloor>x\<rfloor> - 1 = nat e" by (simp add: e_def)
    ultimately have "(2::int) ^ nat e \<le> \<lfloor>x\<rfloor>" by simp
    then have "of_int (2 ^ nat e) \<le> x" by (simp add: le_floor_iff)
    then have xe: "(2::real) ^ nat e \<le> x" by simp
    have split: "(2::real) ^ nat e = 2 ^ 52 * 2 ^ nat (e - 52)"
    proof -
      have "nat e = 52 + nat (e - 52)" using e53 by simp
      then show ?thesis by (simp only: power_add)
    qed
    have "(2::real) ^ 52 \<le> x / ulp"
      using xe by (simp add: ulp split pos_le_divide_eq)
    then have "of_int (2 ^ 52) \<le> x / ulp" by simp
    then have "2 ^ 52 \<le> m" unfolding m_def by (rule roundHalfEven_ge)
    then have "(2::real) ^ 52 \<le> of_int m"
      by (metis of_int_le_iff of_int_numeral of_int_power)
    then have "(2::real) ^ 52 * 2 ^ nat (e - 52) \<le> of_int m * 2 ^ nat (e - 52)"
      by (simp add: mult_right_mono)
    then have ge: "(2::real) ^ nat e \<le> float64Round x"
      by (simp only: r ulp split)
    have "(2::real) ^ 53 \<le> 2 ^ nat e"
      using e53 by (intro power_increasing) auto
    moreover have "(of_int k :: real) \<le> 2 ^ 53"
      using assms(2) by (metis of_int_le_iff of_int_numeral of_int_power)
    ultimately show ?thesis using ge by linarith
  qed
qed

text \<open>
  The rounding decides on ordinary inputs: \<open>50 * 0.58\<close> is just below 29 as a
  \<^verbatim>\<open>float64\<close> product, and \<open>10 * 0.3\<close> is exactly 3 although the \<^verbatim>\<open>float64\<close> nearest to 0.3
  lies below it.
\<close>

lemma float64Mul_rounding_examples:
  "truncToInt (float64Mul (float64Round 50) (float64Round (58 / 100))) = 28
   \<and> \<lfloor>(50 :: real) * (58 / 100)\<rfloor> = 29
   \<and> truncToInt (float64Mul (float64Round 10) (float64Round (3 / 10))) = 3
   \<and> \<lfloor>10 * float64Round (3 / 10)\<rfloor> = 2"
  by code_simp

lemma truncToInt_ge: "0 \<le> k \<Longrightarrow> of_int k \<le> x \<Longrightarrow> k \<le> truncToInt x"
  by (simp add: truncToInt_def le_floor_iff)

lemma affectedStoreThreshold_ge:
  assumes "length (GetStores cluster) < 2 ^ 53"
    and "0 \<le> k" and "k \<le> 2 ^ 53"
    and "0 \<le> GetSlowStoreEvictingAffectedStoreRatioThreshold cluster"
    and "of_int k
         \<le> real (length (GetStores cluster))
           * GetSlowStoreEvictingAffectedStoreRatioThreshold cluster"
  shows "k \<le> affectedStoreThreshold cluster"
proof -
  let ?n = "length (GetStores cluster)"
  let ?r = "GetSlowStoreEvictingAffectedStoreRatioThreshold cluster"
  have "int ?n \<le> 2 ^ 53"
  proof -
    have "?n \<le> 2 ^ 53" using assms(1) by simp
    then have "int ?n \<le> int (2 ^ 53)" by (simp only: of_nat_le_iff)
    then show ?thesis by simp
  qed
  then have "of_int (int ?n) \<le> float64Round (real ?n)"
    by (intro float64Round_ge_int) auto
  then have "real ?n \<le> float64Round (real ?n)" by simp
  then have "real ?n * ?r \<le> float64Round (real ?n) * ?r"
    using assms(4) by (rule mult_right_mono)
  then have "of_int k \<le> float64Round (real ?n) * ?r"
    using assms(5) by linarith
  then have "of_int k \<le> float64Mul (float64Round (real ?n)) ?r"
    unfolding float64Mul_def by (rule float64Round_ge_int [OF assms(2,3)])
  then show ?thesis
    unfolding affectedStoreThreshold_def by (rule truncToInt_ge [OF assms(2)])
qed

lemma slowerThanCount_le:
  "slowerThanCount stores targetID targetTrend
   \<le> length (filter (\<lambda>s. eligible s \<and> GetID s \<noteq> targetID) stores)"
  unfolding slowerThanCount_def by (induction stores) auto

lemma others_less_than_eligible:
  assumes "target \<in> set stores" and "eligible target"
  shows "length (filter (\<lambda>s. eligible s \<and> GetID s \<noteq> GetID target) stores)
         < eligibleCount stores"
  using assms unfolding eligibleCount_def
proof (induction stores)
  case Nil
  then show ?case by simp
next
  case (Cons s stores)
  have le: "length (filter (\<lambda>s. eligible s \<and> GetID s \<noteq> GetID target) stores)
            \<le> length (filter eligible stores)"
    by (induction stores) auto
  show ?case
  proof (cases "s = target")
    case True
    then show ?thesis using Cons.prems le by simp
  next
    case False
    then have "target \<in> set stores" using Cons.prems by simp
    then show ?thesis using Cons.IH Cons.prems by simp
  qed
qed

lemma slower_needs_three_eligible:
  assumes "target \<in> set (GetStores cluster)" and "eligible target"
    and "3 \<le> length (GetStores cluster)"
    and "checkStoreSlowerThanOthers cluster target"
  shows "3 \<le> eligibleCount (GetStores cluster)"
proof -
  obtain tt where tt: "GetSlowTrend target = Some tt"
    using assms(4)
    by (auto simp: checkStoreSlowerThanOthers_def Let_def split: option.splits)
  have "(length (GetStores cluster) * 2 + 1) div 3
        \<le> slowerThanCount (GetStores cluster) (GetID target) tt"
    using assms(4) tt
    by (simp add: checkStoreSlowerThanOthers_def Let_def countSlowerThanStores_eq)
  moreover have "2 \<le> (length (GetStores cluster) * 2 + 1) div 3"
    using assms(3) by linarith
  ultimately have
    "2 \<le> length (filter (\<lambda>s. eligible s \<and> GetID s \<noteq> GetID target) (GetStores cluster))"
    using slowerThanCount_le [of "GetStores cluster" "GetID target" tt] by linarith
  then show ?thesis
    using others_less_than_eligible [OF assms(1,2)] by linarith
qed

lemma chooseEvictCandidate_Some:
  assumes "chooseEvictCandidate cluster now lastCand = Some store"
  shows "3 \<le> length (GetStores cluster)
    \<and> collectedCandidates cluster now lastCand = [store]
    \<and> \<not> int (affectedCount (GetStores cluster)) < affectedStoreThreshold cluster
    \<and> checkStoreSlowerThanOthers cluster store"
proof -
  obtain cands n where
    sc: "scanStores (IsRaftKV2 cluster) now lastCand (GetStores cluster) [] 0 = (cands, n)"
    by (cases "scanStores (IsRaftKV2 cluster) now lastCand (GetStores cluster) [] 0")
  have n: "n = affectedCount (GetStores cluster)"
    using scanStores_affected [of "IsRaftKV2 cluster" now lastCand "GetStores cluster" "[]" 0] sc
    by simp
  show ?thesis
    using assms sc n
    by (auto simp: chooseEvictCandidate_def collectedCandidates_def Let_def
        split: if_splits list.splits)
qed

lemma chooseEvictCandidate_one_candidate:
  assumes "3 \<le> length (GetStores cluster)"
    and "collectedCandidates cluster now lastCand = [store]"
  shows "chooseEvictCandidate cluster now lastCand =
     (if int (affectedCount (GetStores cluster)) < affectedStoreThreshold cluster then None
      else if \<not> checkStoreSlowerThanOthers cluster store then None
      else Some store)"
proof -
  obtain cands n where
    sc: "scanStores (IsRaftKV2 cluster) now lastCand (GetStores cluster) [] 0 = (cands, n)"
    by (cases "scanStores (IsRaftKV2 cluster) now lastCand (GetStores cluster) [] 0")
  have n: "n = affectedCount (GetStores cluster)"
    using scanStores_affected [of "IsRaftKV2 cluster" now lastCand "GetStores cluster" "[]" 0] sc
    by simp
  have c: "cands = [store]"
    using assms(2) sc by (simp add: collectedCandidates_def)
  show ?thesis
    using assms(1) sc n c by (simp add: chooseEvictCandidate_def Let_def)
qed

lemma chooseEvictCandidate_below_threshold:
  assumes "int (affectedCount (GetStores cluster)) < affectedStoreThreshold cluster"
  shows "chooseEvictCandidate cluster now lastCand = None"
proof (cases "chooseEvictCandidate cluster now lastCand")
  case None
  then show ?thesis .
next
  case (Some s)
  then show ?thesis
    using chooseEvictCandidate_Some [OF Some] assms by simp
qed

text \<open>
  The number of eligible nodes never exceeds the number of stores, so a counter below the
  floor of the exact product taken over the eligible nodes is below the threshold of the
  source as well.
\<close>

lemma eligibleCount_le_length: "eligibleCount stores \<le> length stores"
  by (simp add: eligibleCount_def)

lemma affectedCount_le_eligibleCount: "affectedCount stores \<le> eligibleCount stores"
  unfolding affectedCount_def eligibleCount_def by (induction stores) auto

lemma chooseEvictCandidate_below_eligible_floor:
  assumes "length (GetStores cluster) < 2 ^ 53"
    and "int (affectedCount (GetStores cluster))
         < \<lfloor>real (eligibleCount (GetStores cluster))
              * GetSlowStoreEvictingAffectedStoreRatioThreshold cluster\<rfloor>"
  shows "chooseEvictCandidate cluster now lastCand = None"
proof -
  let ?r = "GetSlowStoreEvictingAffectedStoreRatioThreshold cluster"
  let ?e = "real (eligibleCount (GetStores cluster))"
  let ?n = "real (length (GetStores cluster))"
  let ?k = "int (affectedCount (GetStores cluster)) + 1"
  have pos: "0 \<le> ?r"
  proof (rule ccontr)
    assume "\<not> 0 \<le> ?r"
    then have "?e * ?r \<le> 0"
      by (simp add: mult_nonneg_nonpos)
    then have "\<lfloor>?e * ?r\<rfloor> \<le> 0"
      by (simp add: floor_le_zero)
    with assms(2) show False by linarith
  qed
  have "?e \<le> ?n"
    using eligibleCount_le_length [of "GetStores cluster"] by simp
  then have le: "?e * ?r \<le> ?n * ?r"
    using pos by (rule mult_right_mono)
  have "?k \<le> \<lfloor>?e * ?r\<rfloor>"
    using assms(2) by simp
  then have "of_int ?k \<le> ?e * ?r"
    by (simp only: le_floor_iff)
  then have k: "of_int ?k \<le> ?n * ?r"
    using le by linarith
  have "affectedCount (GetStores cluster) \<le> length (GetStores cluster)"
    using affectedCount_le_eligibleCount [of "GetStores cluster"]
      eligibleCount_le_length [of "GetStores cluster"] by linarith
  then have "affectedCount (GetStores cluster) < 2 ^ 53"
    using assms(1) by linarith
  then have "int (affectedCount (GetStores cluster)) < int (2 ^ 53)"
    by (simp only: of_nat_less_iff)
  then have k53: "?k \<le> 2 ^ 53"
    by simp
  have "?k \<le> affectedStoreThreshold cluster"
    by (rule affectedStoreThreshold_ge [OF assms(1) _ k53 pos k]) simp
  then have "int (affectedCount (GetStores cluster)) < affectedStoreThreshold cluster"
    by simp
  then show ?thesis
    by (rule chooseEvictCandidate_below_threshold)
qed

section \<open>The recovery gap of an evicted store\<close>

text \<open>
  \<^verbatim>\<open>Schedule\<close> measures the recovery gap with \<^verbatim>\<open>candidateCapturedSecs\<close>, from the capture
  timestamp of the current candidate. The only path into the Evicting state pops the
  candidate first, which resets that timestamp to the zero time; the gap is then the
  saturated duration since the zero time, far above the 600 seconds of the gate.
\<close>

lemma popCandidate_clears: "evictCandidate (snd (popCandidate conf)) = emptyCandidate"
  by (simp add: popCandidate_def Let_def)

lemma prepareEvictLeader_keeps_candidate:
  "prepareEvictLeader cluster sid conf = (err, conf', hooks)
   \<Longrightarrow> evictCandidate conf' = evictCandidate conf"
  by (auto simp: prepareEvictLeader_def setStoreAndPersist_def Persist_def Let_def
      SaveScheduleConfig_def split: prod.splits option.splits if_splits)

lemma confirmAndEvict_clears_candidate:
  assumes "confirmAndEvict cluster now conf slowStoreID = Inr (ops, conf', hooks)"
    and "evictedStore conf = 0" and "evictedStore conf' \<noteq> 0"
  shows "evictCandidate conf' = emptyCandidate"
proof (cases "checkStoresAreUpdated cluster slowStoreID (captureTS (evictCandidate conf))")
  case False
  then have "conf' = conf" using assms(1) by (simp add: confirmAndEvict_def)
  then show ?thesis using assms(2,3) by simp
next
  case True
  obtain sid conf2 where p: "popCandidate conf = (sid, conf2)"
    by (cases "popCandidate conf")
  obtain err conf3 hs where q: "prepareEvictLeader cluster sid conf2 = (err, conf3, hs)"
    by (cases "prepareEvictLeader cluster sid conf2")
  have "conf' = conf3"
    using assms(1) True p q by (cases err) (simp_all add: confirmAndEvict_def)
  moreover have "evictCandidate conf3 = evictCandidate conf2"
    using prepareEvictLeader_keeps_candidate [OF q] .
  moreover have "evictCandidate conf2 = emptyCandidate"
    using popCandidate_clears [of conf] p by simp
  ultimately show ?thesis by simp
qed

lemma DurationSinceAsSecs_zero_time:
  assumes "600 * 10 ^ 9 \<le> now"
  shows "defaultRecoveryDurationGap \<le> DurationSinceAsSecs now 0"
proof -
  define d where "d = Since now 0"
  have d: "600 * 10 ^ 9 \<le> d" "d \<le> 2 ^ 63 - 1"
    using assms by (auto simp: d_def Since_def maxDuration_def minDuration_def Let_def)
  have q: "600 \<le> d div 10 ^ 9" "d div 10 ^ 9 < 2 ^ 64"
    using d by auto
  have "uint (word_of_int (d div 10 ^ 9) :: uint64) = d div 10 ^ 9"
    using q by (simp add: uint_word_of_int take_bit_int_eq_self)
  then have "(600 :: uint64) \<le> word_of_int (d div 10 ^ 9)"
    using q by (simp add: word_le_def)
  then show ?thesis
    using d
    by (simp add: DurationSinceAsSecs_def d_def [symmetric] Let_def
        defaultRecoveryDurationGap_def)
qed

lemma Schedule_recovers_once_faster:
  assumes "evictedStore conf \<noteq> 0"
    and "GetStore cluster (evictedStore conf) = Some store"
    and "\<not> IsRemoved store"
    and "checkStoreFasterThanOthers cluster store"
    and "evictCandidate conf = emptyCandidate"
    and "600 * 10 ^ 9 \<le> now"
  shows "Schedule cluster now conf =
     Inr ([], fst (cleanupEvictLeader cluster conf), snd (cleanupEvictLeader cluster conf))"
proof -
  have "defaultRecoveryDurationGap \<le> candidateCapturedSecs now conf"
    using DurationSinceAsSecs_zero_time [OF assms(6)] assms(5)
    by (simp add: candidateCapturedSecs_def emptyCandidate_def)
  then have "checkStoreCanRecover cluster store (candidateCapturedSecs now conf)"
    using assms(4)
    by (simp add: checkStoreCanRecover_def checkStoreReadyForRecover_def split: option.splits)
  then show ?thesis
    using assms(1,2,3) by (simp add: Schedule_def split: prod.splits)
qed

lemma Schedule_continues_below_gap:
  assumes "evictedStore conf \<noteq> 0"
    and "GetStore cluster (evictedStore conf) = Some store"
    and "\<not> IsRemoved store"
    and "checkStoreFasterThanOthers cluster store"
    and "candidateCapturedSecs now conf < defaultRecoveryDurationGap"
  shows "Schedule cluster now conf
         = Inr (scheduleEvictLeaderBatch cluster (EvictedStores conf), conf, [])"
proof -
  obtain tt where "GetSlowTrend store = Some tt"
    using assms(4)
    by (auto simp: checkStoreFasterThanOthers_def Let_def split: option.splits)
  then have "\<not> checkStoreCanRecover cluster store (candidateCapturedSecs now conf)"
    using assms(5)
    by (simp add: checkStoreCanRecover_def checkStoreReadyForRecover_def not_le)
  then show ?thesis
    using assms(1,2,3) by (simp add: Schedule_def scheduleEvictLeader_def getStores_def)
qed

lemma Schedule_missing_evicted_store:
  "evictedStore conf \<noteq> 0 \<Longrightarrow> GetStore cluster (evictedStore conf) = None
   \<Longrightarrow> Schedule cluster now conf = Inl NilPointerDereference"
  by (simp add: Schedule_def)

section \<open>Eviction state: results\<close>

text \<open>
  C9. For every node id, \<^verbatim>\<open>setStoreAndPersist\<close> sets the evicted-store list to the one id
  before the storage write is attempted: the list in memory holds the id afterwards
  whatever the storage answers, and the write that reaches the storage carries that list.
  When the write fails (or the \<^verbatim>\<open>persistFail\<close> failpoint fires) the call returns the
  persistence error, and the list in memory stays mutated.
\<close>

theorem setStoreAndPersist_not_atomic:
  "EvictedStores (snd (setStoreAndPersist sid conf)) = [sid]
   \<and> (\<not> persistFail (storage conf) \<longrightarrow>
        saveCalls (storage (snd (setStoreAndPersist sid conf)))
        = saveCalls (storage conf) @ [(EvictSlowTrendName, [sid])])
   \<and> (persistFail (storage conf) \<or> saveFails (storage conf) \<longrightarrow>
        fst (setStoreAndPersist sid conf) = Some PersistenceError)"
  by (auto simp: setStoreAndPersist_def Persist_def SaveScheduleConfig_def Let_def
      getSchedulerName_def EncodeConfig_def)

theorem setStoreAndPersist_not_atomic_witness:
  "saveFails (storage failingStorageConf)
   \<and> EvictedStores failingStorageConf = []
   \<and> fst (setStoreAndPersist 7 failingStorageConf) = Some PersistenceError
   \<and> EvictedStores (snd (setStoreAndPersist 7 failingStorageConf)) = [7]
   \<and> saveCalls (storage (snd (setStoreAndPersist 7 failingStorageConf)))
     = [(EvictSlowTrendName, [7])]"
  using setStoreAndPersist_not_atomic [of 7 failingStorageConf]
  by (simp add: example_defs)

text \<open>
  C10. For every candidate-tracking state whose current candidate is not the empty value,
  \<^verbatim>\<open>popCandidate\<close> followed by \<^verbatim>\<open>captureCandidate\<close> of the id it returned leaves the last
  candidate equal to the candidate that was popped.
\<close>

theorem popCandidate_captureCandidate_last:
  "evictCandidate conf \<noteq> emptyCandidate
   \<Longrightarrow> lastEvictCandidate
         (captureCandidate now (fst (popCandidate conf)) (snd (popCandidate conf)))
       = evictCandidate conf"
  by (simp add: captureCandidate_def popCandidate_def Let_def)

theorem popCandidate_captureCandidate_last_witness:
  "evictCandidate probationConf \<noteq> emptyCandidate
   \<and> fst (popCandidate probationConf) = 1
   \<and> lastEvictCandidate
        (captureCandidate (captureInstant + 1) (fst (popCandidate probationConf))
           (snd (popCandidate probationConf)))
     = \<lparr>storeID = 1, captureTS = captureInstant\<rparr>"
proof -
  have h: "evictCandidate probationConf \<noteq> emptyCandidate"
    by (simp add: example_defs)
  show ?thesis
    using h popCandidate_captureCandidate_last [OF h, of "captureInstant + 1"]
    by (simp add: example_defs popCandidate_def Let_def)
qed

text \<open>
  With an empty current candidate the pop stores the empty value as last candidate, and
  the capture that follows seeds the last candidate with the new capture instead.
\<close>

theorem popCandidate_captureCandidate_empty_counterexample:
  "evictCandidate evictingConf = emptyCandidate
   \<and> lastEvictCandidate
        (captureCandidate (captureInstant + 1) (fst (popCandidate evictingConf))
           (snd (popCandidate evictingConf)))
     \<noteq> evictCandidate evictingConf"
  by (simp add: example_defs captureCandidate_def popCandidate_def Let_def)

section \<open>Confirmation gate: results\<close>

text \<open>
  C2. For every target and every recovery gap, \<^verbatim>\<open>checkStoreReadyForRecover\<close> passes if and
  only if the target has no trend signal or the gap is at least 600 seconds.
\<close>

theorem checkStoreReadyForRecover_iff:
  "checkStoreReadyForRecover cluster target recoveryGap
   = (GetSlowTrend target = None \<or> 600 \<le> recoveryGap)"
  by (simp add: checkStoreReadyForRecover_def defaultRecoveryDurationGap_def
      split: option.splits)

theorem checkStoreReadyForRecover_iff_witness:
  "\<not> checkStoreReadyForRecover parityCluster (healthyStore 1) 599
   \<and> checkStoreReadyForRecover parityCluster (healthyStore 1) 600"
  using checkStoreReadyForRecover_iff [of parityCluster "healthyStore 1" 599]
    checkStoreReadyForRecover_iff [of parityCluster "healthyStore 1" 600]
  by (simp add: example_defs)

text \<open>A target without a trend signal is ready at once, whatever the gap.\<close>

theorem checkStoreReadyForRecover_no_trend_counterexample:
  "\<not> (checkStoreReadyForRecover parityCluster (silentStore 1) 0
       \<longleftrightarrow> (600 :: uint64) \<le> 0)"
  by (simp add: example_defs checkStoreReadyForRecover_def)

text \<open>
  C3. For every cluster and every target with a trend signal,
  \<^verbatim>\<open>checkStoreSlowerThanOthers\<close> passes if and only if the number of other eligible nodes
  that the target is slower than is at least \<open>(2 * total + 1) div 3\<close>, two thirds of the
  number of stores in the snapshot rounded to the nearest integer.
\<close>

theorem checkStoreSlowerThanOthers_iff:
  "GetSlowTrend target = Some targetTrend
   \<Longrightarrow> checkStoreSlowerThanOthers cluster target
       = ((2 * length (GetStores cluster) + 1) div 3
          \<le> slowerThanCount (GetStores cluster) (GetID target) targetTrend)"
  by (simp add: checkStoreSlowerThanOthers_def Let_def countSlowerThanStores_eq mult.commute)

theorem checkStoreSlowerThanOthers_iff_witness:
  "GetSlowTrend (slowStore 1) = Some (exampleTrend 5 1 (- 1))
   \<and> slowerThanCount (GetStores slowCluster) (GetID (slowStore 1)) (exampleTrend 5 1 (- 1)) = 2
   \<and> checkStoreSlowerThanOthers slowCluster (slowStore 1)"
proof -
  have h: "GetSlowTrend (slowStore 1) = Some (exampleTrend 5 1 (- 1))"
    by (simp add: example_defs)
  have c: "slowerThanCount (GetStores slowCluster) (GetID (slowStore 1))
             (exampleTrend 5 1 (- 1)) = 2"
    by (simp add: example_defs slowerThanCount_def)
  show ?thesis
    using h c checkStoreSlowerThanOthers_iff [OF h, of slowCluster]
    by (simp add: example_defs)
qed

text \<open>
  With four stores the target is slower than two others: \<open>\<lfloor>4 * 2 / 3\<rfloor> = 2\<close> would let
  it pass, and the code asks for three.
\<close>

theorem checkStoreSlowerThanOthers_floor_counterexample:
  "\<not> (checkStoreSlowerThanOthers fourStoreCluster (slowStore 1)
       \<longleftrightarrow> \<lfloor>real (length (GetStores fourStoreCluster)) * 2 / 3\<rfloor>
            \<le> int (slowerThanCount (GetStores fourStoreCluster) (GetID (slowStore 1))
                      (exampleTrend 5 1 (- 1))))"
proof -
  have a: "\<not> checkStoreSlowerThanOthers fourStoreCluster (slowStore 1)"
    by (simp add: example_defs checkStoreSlowerThanOthers_def)
  have b: "slowerThanCount (GetStores fourStoreCluster) (GetID (slowStore 1))
             (exampleTrend 5 1 (- 1)) = 2"
    by (simp add: example_defs slowerThanCount_def)
  have c: "\<lfloor>real (length (GetStores fourStoreCluster)) * 2 / 3\<rfloor> = 2"
    by (simp add: example_defs)
  show ?thesis using a b c by simp
qed

text \<open>
  C7. For every cluster, target id and capture timestamp, \<^verbatim>\<open>checkStoresAreUpdated\<close> passes
  if and only if the snapshot holds more than one store and the number of eligible nodes
  with a heartbeat at or after the timestamp, plus the ineligible nodes and the target, is
  at least \<open>\<lceil>total / 2\<rceil>\<close>.
\<close>

theorem checkStoresAreUpdated_iff:
  "checkStoresAreUpdated cluster targetID sinceTS
   = (1 < length (GetStores cluster)
      \<and> \<lceil>real (length (GetStores cluster)) / 2\<rceil>
        \<le> int (updatedCount (GetStores cluster) targetID sinceTS))"
  by (auto simp: checkStoresAreUpdated_def Let_def countUpdatedStores_eq ceiling_half)

theorem checkStoresAreUpdated_iff_witness:
  "updatedCount (GetStores slowCluster) 1 captureInstant = 3
   \<and> checkStoresAreUpdated slowCluster 1 captureInstant
   \<and> updatedCount (GetStores slowCluster) 1 (captureInstant + 10 * 10 ^ 9) = 1
   \<and> \<not> checkStoresAreUpdated slowCluster 1 (captureInstant + 10 * 10 ^ 9)"
proof -
  have a: "updatedCount (GetStores slowCluster) 1 captureInstant = 3"
    by (simp add: example_defs updatedCount_def)
  have b: "updatedCount (GetStores slowCluster) 1 (captureInstant + 10 * 10 ^ 9) = 1"
    by (simp add: example_defs updatedCount_def)
  have n: "length (GetStores slowCluster) = 3"
    by (simp add: example_defs)
  show ?thesis
    using a b n checkStoresAreUpdated_iff [of slowCluster 1 captureInstant]
      checkStoresAreUpdated_iff [of slowCluster 1 "captureInstant + 10 * 10 ^ 9"]
    by (simp add: ceiling_half)
qed

text \<open>
  A snapshot of one store, the target itself: the count 1 reaches \<open>\<lceil>1 / 2\<rceil> = 1\<close>, and the
  check fails on the guard for snapshots of at most one store.
\<close>

theorem checkStoresAreUpdated_single_store_counterexample:
  "\<not> (checkStoresAreUpdated singleStoreCluster 1 captureInstant
       \<longleftrightarrow> \<lceil>real (length (GetStores singleStoreCluster)) / 2\<rceil>
            \<le> int (updatedCount (GetStores singleStoreCluster) 1 captureInstant))"
proof -
  have a: "\<not> checkStoresAreUpdated singleStoreCluster 1 captureInstant"
    by (simp add: example_defs checkStoresAreUpdated_def)
  have b: "updatedCount (GetStores singleStoreCluster) 1 captureInstant = 1"
    by (simp add: example_defs updatedCount_def)
  have n: "length (GetStores singleStoreCluster) = 1"
    by (simp add: example_defs)
  have c: "\<lceil>real (length (GetStores singleStoreCluster)) / 2\<rceil> = 1"
    unfolding n ceiling_half by simp
  show ?thesis using a b c by simp
qed

section \<open>Candidate detector: results\<close>

text \<open>
  C4. For every cluster snapshot with fewer than three eligible nodes,
  \<^verbatim>\<open>chooseEvictCandidate\<close> returns no candidate, whatever the trend signals and the last
  candidate are. A snapshot of fewer than three stores is rejected at once; in a larger
  one the sole candidate would have to be slower than at least two other eligible nodes.
\<close>

theorem chooseEvictCandidate_few_eligible:
  "eligibleCount (GetStores cluster) < 3
   \<Longrightarrow> chooseEvictCandidate cluster now lastCand = None"
proof (rule ccontr)
  assume few: "eligibleCount (GetStores cluster) < 3"
  assume "chooseEvictCandidate cluster now lastCand \<noteq> None"
  then obtain store where some: "chooseEvictCandidate cluster now lastCand = Some store"
    by auto
  note facts = chooseEvictCandidate_Some [OF some]
  have "store \<in> set (collectedCandidates cluster now lastCand)"
    using facts by simp
  then have "store \<in> set (GetStores cluster) \<and> eligible store"
    using scanStores_candidates [of "IsRaftKV2 cluster" now lastCand "GetStores cluster" "[]" 0]
    by (auto simp: collectedCandidates_def)
  then have "3 \<le> eligibleCount (GetStores cluster)"
    using slower_needs_three_eligible facts by blast
  with few show False by simp
qed

theorem chooseEvictCandidate_few_eligible_witness:
  "length (GetStores twoEligibleCluster) = 3
   \<and> eligibleCount (GetStores twoEligibleCluster) = 2
   \<and> collectedCandidates twoEligibleCluster captureInstant emptyCandidate = [slowStore 1]
   \<and> chooseEvictCandidate twoEligibleCluster captureInstant emptyCandidate = None"
proof -
  have n: "length (GetStores twoEligibleCluster) = 3"
    by (simp add: example_defs)
  have e: "eligibleCount (GetStores twoEligibleCluster) = 2"
    by (simp add: example_defs eligibleCount_def)
  have c: "collectedCandidates twoEligibleCluster captureInstant emptyCandidate = [slowStore 1]"
    by (simp add: example_defs collectedCandidates_def)
  have h: "eligibleCount (GetStores twoEligibleCluster) < 3"
    using e by simp
  show ?thesis
    using n e c chooseEvictCandidate_few_eligible [OF h, of captureInstant emptyCandidate]
    by simp
qed

text \<open>
  C6. In \<^verbatim>\<open>chooseEvictCandidate\<close>, when exactly one candidate was collected, the candidate
  is rejected whenever the affected-node counter is strictly below
  \<^verbatim>\<open>int(float64(total) * ratio)\<close>, where \<open>total\<close> is the number of all stores in the
  snapshot, ineligible ones included, and the product is the \<^verbatim>\<open>float64\<close> product rounded
  towards zero. The threshold is exactly that: a counter that is not below it lets the
  candidate through to the slower-than-others confirmation, which alone decides then.
\<close>

theorem chooseEvictCandidate_sole_candidate:
  assumes "collectedCandidates cluster now lastCand = [store]"
  shows "chooseEvictCandidate cluster now lastCand =
     (if length (GetStores cluster) < 3 then None
      else if int (affectedCount (GetStores cluster))
              < truncToInt (float64Mul (float64Round (real (length (GetStores cluster))))
                              (GetSlowStoreEvictingAffectedStoreRatioThreshold cluster))
      then None
      else if \<not> checkStoreSlowerThanOthers cluster store then None
      else Some store)"
proof (cases "length (GetStores cluster) < 3")
  case True
  then show ?thesis by (simp add: chooseEvictCandidate_def Let_def)
next
  case False
  then have n: "3 \<le> length (GetStores cluster)" by simp
  show ?thesis
    using chooseEvictCandidate_one_candidate [OF n assms] False
    by (simp add: affectedStoreThreshold_def)
qed

theorem chooseEvictCandidate_sole_candidate_witness:
  "collectedCandidates tenStoreCluster captureInstant emptyCandidate = [slowStore 1]
   \<and> affectedCount (GetStores tenStoreCluster) = 2
   \<and> truncToInt (float64Mul (float64Round (real (length (GetStores tenStoreCluster))))
                   (GetSlowStoreEvictingAffectedStoreRatioThreshold tenStoreCluster)) = 3
   \<and> chooseEvictCandidate tenStoreCluster captureInstant emptyCandidate = None
   \<and> collectedCandidates slowCluster captureInstant emptyCandidate = [slowStore 1]
   \<and> affectedCount (GetStores slowCluster) = 1
   \<and> truncToInt (float64Mul (float64Round (real (length (GetStores slowCluster))))
                   (GetSlowStoreEvictingAffectedStoreRatioThreshold slowCluster)) = 0
   \<and> checkStoreSlowerThanOthers slowCluster (slowStore 1)
   \<and> chooseEvictCandidate slowCluster captureInstant emptyCandidate = Some (slowStore 1)"
proof -
  have c10: "collectedCandidates tenStoreCluster captureInstant emptyCandidate = [slowStore 1]"
    by (simp add: example_defs collectedCandidates_def)
  have a10: "affectedCount (GetStores tenStoreCluster) = 2"
    by (simp add: example_defs affectedCount_def)
  have n10: "\<not> length (GetStores tenStoreCluster) < 3"
    by (simp add: example_defs)
  have t10: "truncToInt (float64Mul (float64Round (real (length (GetStores tenStoreCluster))))
                (GetSlowStoreEvictingAffectedStoreRatioThreshold tenStoreCluster)) = 3"
    by code_simp
  have r10: "chooseEvictCandidate tenStoreCluster captureInstant emptyCandidate = None"
    using chooseEvictCandidate_sole_candidate [OF c10] a10 n10 t10 by simp
  have c3: "collectedCandidates slowCluster captureInstant emptyCandidate = [slowStore 1]"
    by (simp add: example_defs collectedCandidates_def)
  have a3: "affectedCount (GetStores slowCluster) = 1"
    by (simp add: example_defs affectedCount_def)
  have n3: "\<not> length (GetStores slowCluster) < 3"
    by (simp add: example_defs)
  have t3: "truncToInt (float64Mul (float64Round (real (length (GetStores slowCluster))))
               (GetSlowStoreEvictingAffectedStoreRatioThreshold slowCluster)) = 0"
    by code_simp
  have s3: "checkStoreSlowerThanOthers slowCluster (slowStore 1)"
    by (simp add: example_defs checkStoreSlowerThanOthers_def)
  have r3: "chooseEvictCandidate slowCluster captureInstant emptyCandidate = Some (slowStore 1)"
    using chooseEvictCandidate_sole_candidate [OF c3] a3 n3 t3 s3 by simp
  show ?thesis
    using c10 a10 t10 r10 c3 a3 t3 s3 r3 by simp
qed

text \<open>
  Six stores, five of them eligible, two affected, ratio one half. Over the eligible nodes
  the threshold would be \<open>\<lfloor>5 / 2\<rfloor> = 2\<close> and the sole candidate, which is slower than
  enough others, would be returned; the code computes 3 from the six stores and rejects
  it.
\<close>

theorem chooseEvictCandidate_eligible_threshold_counterexample:
  "collectedCandidates sixStoreCluster captureInstant emptyCandidate = [slowStore 1]
   \<and> \<not> int (affectedCount (GetStores sixStoreCluster))
         < \<lfloor>real (eligibleCount (GetStores sixStoreCluster))
              * GetSlowStoreEvictingAffectedStoreRatioThreshold sixStoreCluster\<rfloor>
   \<and> affectedStoreThreshold sixStoreCluster
       \<noteq> \<lfloor>real (eligibleCount (GetStores sixStoreCluster))
            * GetSlowStoreEvictingAffectedStoreRatioThreshold sixStoreCluster\<rfloor>
   \<and> checkStoreSlowerThanOthers sixStoreCluster (slowStore 1)
   \<and> chooseEvictCandidate sixStoreCluster captureInstant emptyCandidate = None"
proof -
  have c: "collectedCandidates sixStoreCluster captureInstant emptyCandidate = [slowStore 1]"
    by (simp add: example_defs collectedCandidates_def)
  have a: "affectedCount (GetStores sixStoreCluster) = 2"
    by (simp add: example_defs affectedCount_def)
  have e: "eligibleCount (GetStores sixStoreCluster) = 5"
    by (simp add: example_defs eligibleCount_def)
  have r: "GetSlowStoreEvictingAffectedStoreRatioThreshold sixStoreCluster = 1 / 2"
    by (simp add: example_defs)
  have f: "\<lfloor>real (eligibleCount (GetStores sixStoreCluster))
             * GetSlowStoreEvictingAffectedStoreRatioThreshold sixStoreCluster\<rfloor> = 2"
    unfolding e r by simp
  have t: "affectedStoreThreshold sixStoreCluster = 3"
    by code_simp
  have s: "checkStoreSlowerThanOthers sixStoreCluster (slowStore 1)"
    by (simp add: example_defs checkStoreSlowerThanOthers_def)
  have n: "3 \<le> length (GetStores sixStoreCluster)"
    by (simp add: example_defs)
  have "chooseEvictCandidate sixStoreCluster captureInstant emptyCandidate = None"
    using chooseEvictCandidate_one_candidate [OF n c] a t by simp
  then show ?thesis using c a f t s by simp
qed

section \<open>Scheduling decision loop: results\<close>

text \<open>
  While the evicted store is still listed in the cluster with the status Removed, the next
  \<^verbatim>\<open>Schedule\<close> tick returns no operator, clears the evicted-store list, attempts to
  persist the empty list, and calls the recovery hook for the store. The candidate slots
  are untouched, so the scheduler is back in the Idle state when no candidate was set.
\<close>

lemma Schedule_evicted_store_tombstone:
  assumes "evictedStore conf \<noteq> 0"
    and "GetStore cluster (evictedStore conf) = Some store"
    and "IsRemoved store"
  shows "\<exists>conf'. Schedule cluster now conf = Inr ([], conf', [Recovered (evictedStore conf)])
     \<and> EvictedStores conf' = []
     \<and> evictedStore conf' = 0
     \<and> evictCandidate conf' = evictCandidate conf
     \<and> lastEvictCandidate conf' = lastEvictCandidate conf
     \<and> (\<not> persistFail (storage conf) \<longrightarrow>
          saveCalls (storage conf') = saveCalls (storage conf) @ [(EvictSlowTrendName, [])])"
  using assms
  by (auto simp: Schedule_def cleanupEvictLeader_def clearAndPersist_def Persist_def Let_def
      SaveScheduleConfig_def getSchedulerName_def EncodeConfig_def evictedStore_def
      split: prod.splits)

lemma Schedule_evicted_store_tombstone_example:
  "evictedStore evictingConf = 1
   \<and> GetStore tombstoneCluster 1 = Some (removedStore 1)
   \<and> IsRemoved (removedStore 1)
   \<and> Schedule tombstoneCluster (captureInstant + 500 * 10 ^ 9) evictingConf
     = Inr ([], recoveredConf, [Recovered 1])"
proof -
  have h1: "evictedStore evictingConf \<noteq> 0"
    by (simp add: example_defs evictedStore_def)
  have h2: "GetStore tombstoneCluster (evictedStore evictingConf) = Some (removedStore 1)"
    by (simp add: example_defs evictedStore_def)
  have h3: "IsRemoved (removedStore 1)"
    by (simp add: example_defs)
  have e: "evictedStore evictingConf = 1"
    by (simp add: example_defs evictedStore_def)
  obtain conf' where
    s: "Schedule tombstoneCluster (captureInstant + 500 * 10 ^ 9) evictingConf
        = Inr ([], conf', [Recovered (evictedStore evictingConf)])"
    and c: "EvictedStores conf' = []" "evictCandidate conf' = evictCandidate evictingConf"
      "lastEvictCandidate conf' = lastEvictCandidate evictingConf"
    using Schedule_evicted_store_tombstone [OF h1 h2 h3, of "captureInstant + 500 * 10 ^ 9"]
    by blast
  have "Schedule tombstoneCluster (captureInstant + 500 * 10 ^ 9) evictingConf
        = Inr ([], recoveredConf, [Recovered 1])"
    by (simp add: example_defs Schedule_def evictedStore_def cleanupEvictLeader_def
        clearAndPersist_def Persist_def SaveScheduleConfig_def EncodeConfig_def
        getSchedulerName_def Let_def)
  then show ?thesis using s e h2 h3 by simp
qed

text \<open>
  C8. The evicted store has been removed from the cluster and is gone from its store list:
  the lookup returns nothing. The specification asks the tick to clear the eviction and
  to return no operator; the tick ends in a nil pointer dereference at the log line of
  the removed-store branch, before \<^verbatim>\<open>cleanupEvictLeader\<close> is reached, and the evicted-store
  list is never cleared.
\<close>

theorem Schedule_panics_on_purged_store:
  "evictedStore evictingConf = 1
   \<and> find (\<lambda>s. GetID s = 1) (GetStores purgedCluster) = None
   \<and> GetStore purgedCluster 1 = None
   \<and> Schedule purgedCluster (captureInstant + 500 * 10 ^ 9) evictingConf
     = Inl NilPointerDereference"
proof -
  have e: "evictedStore evictingConf = 1"
    by (simp add: example_defs evictedStore_def)
  have l: "find (\<lambda>s. GetID s = 1) (GetStores purgedCluster) = None"
    by (simp add: example_defs)
  have g: "GetStore purgedCluster 1 = None"
    by (simp add: example_defs)
  have s: "Schedule purgedCluster (captureInstant + 500 * 10 ^ 9) evictingConf
           = Inl NilPointerDereference"
    by (simp add: example_defs Schedule_def evictedStore_def)
  show ?thesis using e l g s by simp
qed

text \<open>
  C1. A store is evicted, present and not removed; it is as fast as its peers again, and
  500 seconds have passed since it was captured and evicted. The specification asks the tick to
  stay in the Evicting state. The first tick below captures store 1 and starts its
  eviction, leaving the current candidate empty; on the second tick, 500 seconds later,
  the gap handed to the recovery check is measured from the empty candidate's zero
  timestamp, 9223372036 seconds, and the tick recovers the store.
\<close>

theorem Schedule_recovers_before_gap_elapsed:
  "Schedule slowCluster captureInstant idleConf = Inr ([1], evictingConf, [Evicted 1])
   \<and> Since (captureInstant + 500 * 10 ^ 9) captureInstant = 500 * 10 ^ 9
   \<and> GetStore parityCluster (evictedStore evictingConf) = Some (healthyStore 1)
   \<and> \<not> IsRemoved (healthyStore 1)
   \<and> checkStoreFasterThanOthers parityCluster (healthyStore 1)
   \<and> candidateCapturedSecs (captureInstant + 500 * 10 ^ 9) evictingConf = 9223372036
   \<and> Schedule parityCluster (captureInstant + 500 * 10 ^ 9) evictingConf
     = Inr ([], recoveredConf, [Recovered 1])
   \<and> evictedStore recoveredConf = 0"
proof -
  have t1: "Schedule slowCluster captureInstant idleConf = Inr ([1], evictingConf, [Evicted 1])"
    by code_simp
  have d: "Since (captureInstant + 500 * 10 ^ 9) captureInstant = 500 * 10 ^ 9"
    by (simp add: example_defs Since_def maxDuration_def minDuration_def Let_def)
  have g: "GetStore parityCluster (evictedStore evictingConf) = Some (healthyStore 1)"
    by (simp add: example_defs evictedStore_def)
  have r: "\<not> IsRemoved (healthyStore 1)"
    by (simp add: example_defs)
  have f: "checkStoreFasterThanOthers parityCluster (healthyStore 1)"
    by (simp add: example_defs checkStoreFasterThanOthers_def)
  have c: "candidateCapturedSecs (captureInstant + 500 * 10 ^ 9) evictingConf = 9223372036"
    by (simp add: example_defs candidateCapturedSecs_def DurationSinceAsSecs_def Since_def
        maxDuration_def minDuration_def Let_def)
  have t2: "Schedule parityCluster (captureInstant + 500 * 10 ^ 9) evictingConf
            = Inr ([], recoveredConf, [Recovered 1])"
    by (simp add: example_defs Schedule_def evictedStore_def Let_def checkStoreCanRecover_def
        checkStoreFasterThanOthers_def checkStoreReadyForRecover_def
        candidateCapturedSecs_def DurationSinceAsSecs_def Since_def maxDuration_def
        minDuration_def defaultRecoveryDurationGap_def cleanupEvictLeader_def
        clearAndPersist_def Persist_def SaveScheduleConfig_def EncodeConfig_def
        getSchedulerName_def)
  have z: "evictedStore recoveredConf = 0"
    by (simp add: example_defs evictedStore_def)
  show ?thesis using t1 d g r f c t2 z by simp
qed

text \<open>
  C5. The evicted store no longer exists in the cluster: the lookup returns nothing, the
  branch for a removed store evaluates \<^verbatim>\<open>store.GetID()\<close> on the nil store for its log
  line, and the tick ends in a nil pointer dereference instead of cleaning up.
\<close>

theorem Schedule_panics_on_vanished_store:
  "evictedStore vanishedConf = 4
   \<and> GetStore parityCluster 4 = None
   \<and> Schedule parityCluster (captureInstant + 500 * 10 ^ 9) vanishedConf
     = Inl NilPointerDereference"
proof -
  have e: "evictedStore vanishedConf = 4"
    by (simp add: example_defs evictedStore_def)
  have g: "GetStore parityCluster 4 = None"
    by (simp add: example_defs)
  have s: "Schedule parityCluster (captureInstant + 500 * 10 ^ 9) vanishedConf
           = Inl NilPointerDereference"
    by (simp add: example_defs Schedule_def evictedStore_def)
  show ?thesis using e g s by simp
qed


end
